theory Spec2Isabelle
  imports Main
begin

section \<open>Python strings\<close>

text \<open>
  A Python \<open>str\<close> is modelled as a \<open>string\<close>, one \<open>char\<close> per code point; the model
  covers ASCII text. The functions below are the \<open>str\<close> methods that \<open>short.py\<close> calls.
\<close>

definition NL :: char where
  "NL = CHR 0x0A"

text \<open>\<open>s.count(c)\<close> for a one-character \<open>c\<close>.\<close>

definition py_count :: "string \<Rightarrow> char \<Rightarrow> int" where
  "py_count s c = int (length (filter (\<lambda>x. x = c) s))"

text \<open>\<open>s * n\<close>: the empty string when \<open>n\<close> is zero or negative.\<close>

definition py_repeat :: "string \<Rightarrow> int \<Rightarrow> string" where
  "py_repeat s n = concat (replicate (nat n) s)"

text \<open>\<open>s.startswith(p)\<close>.\<close>

definition startswith :: "string \<Rightarrow> string \<Rightarrow> bool" where
  "startswith s p = (take (length p) s = p)"

text \<open>\<open>sep.join(xs)\<close>.\<close>

fun join :: "string \<Rightarrow> string list \<Rightarrow> string" where
  "join sp [] = []"
| "join sp [x] = x"
| "join sp (x # y # ys) = x @ sp @ join sp (y # ys)"

text \<open>
  \<open>str.isspace\<close> on one ASCII character, which is also what \<open>\s\<close> matches in a \<open>str\<close>
  pattern: tab, newline, vertical tab, form feed, carriage return, the four separators
  0x1C to 0x1F, and the space.
\<close>

definition is_space :: "char \<Rightarrow> bool" where
  "is_space c = (let n = of_char c :: nat in (9 \<le> n \<and> n \<le> 13) \<or> (28 \<le> n \<and> n \<le> 32))"

definition lstrip :: "string \<Rightarrow> string" where
  "lstrip s = dropWhile is_space s"

definition rstrip :: "string \<Rightarrow> string" where
  "rstrip s = rev (dropWhile is_space (rev s))"

definition strip :: "string \<Rightarrow> string" where
  "strip s = rstrip (lstrip s)"

text \<open>
  \<open>first, rest = s.split("\n", 1)\<close> for an \<open>s\<close> that holds a newline (both callers append
  one before they split): the text before the first newline and the text after it.
\<close>

definition split_first_nl :: "string \<Rightarrow> string \<times> string" where
  "split_first_nl s = (takeWhile (\<lambda>c. c \<noteq> NL) s, drop 1 (dropWhile (\<lambda>c. c \<noteq> NL) s))"

text \<open>Truth value of a field that holds \<open>None\<close> or a string: only a non-empty string is true.\<close>

fun truthy :: "string option \<Rightarrow> bool" where
  "truthy None = False"
| "truthy (Some s) = (s \<noteq> [])"

text \<open>The text of such a field where the code formats it.\<close>

fun text_of :: "string option \<Rightarrow> string" where
  "text_of None = []"
| "text_of (Some s) = s"

section \<open>Messages, test types and the externals of the short log transform\<close>

text \<open>
  A parsed log line (\<open>msg\<close> in \<open>short.py\<close>) is a mapping read by key. The record holds the
  keys the four registered formatters and \<open>transform\<close> read; a message is taken to carry
  all of them, so the \<open>KeyError\<close> of a malformed message is not part of the model.
  \<open>test_subtype\<close>, \<open>test_description\<close>, \<open>result_message\<close> and \<open>result_reason\<close> may hold
  \<open>None\<close>.
\<close>

record msg =
  message_keyword :: string
  test_id :: string
  test_flags :: int
  test_type :: string
  test_subtype :: "string option"
  test_name :: string
  test_description :: "string option"
  message :: string
  attribute_name :: string
  attribute_value :: string
  result_type :: string
  result_test :: string
  result_message :: "string option"
  result_reason :: "string option"

text \<open>
  Modelled from the spec: \<open>testflows/_core/testtype.py\<close> is not among the sources. The
  members of \<open>TestType\<close> and \<open>TestSubType\<close> are the ones the spec lists and
  \<open>format_test\<close> names. No member of \<open>TestSubType\<close> is equal to the integer 0 that
  \<open>get_subtype\<close> returns for an unknown name (the spec renders an unrecognised subtype as
  \<open>Step\<close> or \<open>Test\<close>).
\<close>

datatype TestType = Module | Suite | Iteration | Step | Test

datatype TestSubType =
  Feature | Scenario | Background | Given | When | Then | By | But | Finally | And

text \<open>\<open>getattr(TestType, name)\<close> over the member names; \<open>None\<close> is the \<open>AttributeError\<close>.\<close>

definition TestType_getattr :: "string \<Rightarrow> TestType option" where
  "TestType_getattr n =
     (if n = ''Module'' then Some Module
      else if n = ''Suite'' then Some Suite
      else if n = ''Iteration'' then Some Iteration
      else if n = ''Step'' then Some Step
      else if n = ''Test'' then Some Test
      else None)"

text \<open>\<open>getattr(TestSubType, name, 0)\<close> over the member names; \<open>None\<close> is the default 0.\<close>

definition TestSubType_getattr :: "string \<Rightarrow> TestSubType option" where
  "TestSubType_getattr n =
     (if n = ''Feature'' then Some Feature
      else if n = ''Scenario'' then Some Scenario
      else if n = ''Background'' then Some Background
      else if n = ''Given'' then Some Given
      else if n = ''When'' then Some When
      else if n = ''Then'' then Some Then
      else if n = ''By'' then Some By
      else if n = ''But'' then Some But
      else if n = ''Finally'' then Some Finally
      else if n = ''And'' then Some And
      else None)"

text \<open>\<open>str(x)\<close> of a field that holds \<open>None\<close> or a string.\<close>

fun py_str :: "string option \<Rightarrow> string" where
  "py_str None = ''None''"
| "py_str (Some s) = s"

datatype error = AttributeError

text \<open>
  What \<open>short.py\<close> imports from modules that are not among the sources is a parameter of
  the model:
  \<^item> \<open>color text colour attrs\<close> and \<open>cursor_up()\<close> of \<open>testflows._core.cli.colors\<close>;
  \<^item> \<open>split_last name\<close> for the expression \<open>split(name)[-1]\<close>, and \<open>parentname\<close> and
    \<open>basename\<close>, of \<open>testflows._core.name\<close>;
  \<^item> \<open>SKIP\<close> of \<open>testflows._core.flags\<close> and \<open>settings.show_skipped\<close> (\<open>show_skipped_False\<close>
    is the test \<open>settings.show_skipped is False\<close>);
  \<^item> \<open>textwrap.dedent\<close> and \<open>textwrap.indent\<close> of the standard library.
\<close>

record externals =
  color :: "string \<Rightarrow> string \<Rightarrow> string list \<Rightarrow> string"
  cursor_up :: string
  split_last :: "string \<Rightarrow> string"
  parentname :: "string \<Rightarrow> string"
  basename :: "string \<Rightarrow> string"
  SKIP :: int
  show_skipped_False :: bool
  textwrap_dedent :: "string \<Rightarrow> string"
  textwrap_indent :: "string \<Rightarrow> string \<Rightarrow> string"

text \<open>
  The module-level objects \<open>tests_by_id\<close>, \<open>tests_by_parent\<close> and \<open>last_message\<close>. They
  are created once, when the module is imported; every function of the module reads and
  updates them in place.
\<close>

record state =
  tests_by_id :: "string \<rightharpoonup> msg"
  tests_by_parent :: "string \<rightharpoonup> msg list"
  last_message :: "msg option"

definition initial_state :: state where
  "initial_state = \<lparr>tests_by_id = Map.empty, tests_by_parent = Map.empty, last_message = None\<rparr>"

section \<open>The formatters of \<open>short.py\<close>\<close>

definition indent :: string where
  "indent = py_repeat '' '' 2"

definition color_keyword :: "externals \<Rightarrow> string \<Rightarrow> string" where
  "color_keyword E keyword = color E (split_last E keyword) ''white'' [''bold'']"

definition color_secondary_keyword :: "externals \<Rightarrow> string \<Rightarrow> string" where
  "color_secondary_keyword E keyword = color E (split_last E keyword) ''white'' [''bold'', ''dim'']"

definition color_test_name :: "externals \<Rightarrow> string \<Rightarrow> string" where
  "color_test_name E name = color E (split_last E name) ''white'' []"

definition color_result :: "externals \<Rightarrow> string \<Rightarrow> string" where
  "color_result E result =
     (if startswith result ''X'' then color E result ''blue'' [''bold'']
      else if result = ''OK'' then color E result ''green'' [''bold'']
      else if result = ''Skip'' then color E result ''cyan'' [''bold'']
      else color E result ''red'' [''bold''])"

text \<open>The prompt sign U+270B of \<open>format_input\<close>, as its three UTF-8 bytes.\<close>

definition raised_hand :: string where
  "raised_hand = [CHR 0xE2, CHR 0x9C, CHR 0x8B]"

definition format_input :: "externals \<Rightarrow> msg \<Rightarrow> string \<Rightarrow> string" where
  "format_input E m keyword =
     py_repeat indent (py_count (test_id m) CHR ''/'')
       @ color E (raised_hand @ '' '' @ message m) ''yellow'' [''bold'']
       @ cursor_up E @ [NL]"

definition format_multiline :: "externals \<Rightarrow> string \<Rightarrow> string \<Rightarrow> string" where
  "format_multiline E txt ind =
     (let (first, rest) = split_first_nl (rstrip txt @ [NL]);
          first1 = strip first;
          first2 = (if first1 \<noteq> [] then first1 @ [NL] else first1);
          out = rstrip (first2 @ textwrap_dedent E (rstrip rest))
      in textwrap_indent E out (ind @ ''  ''))"

definition format_test_description :: "externals \<Rightarrow> msg \<Rightarrow> string \<Rightarrow> string" where
  "format_test_description E m ind =
     color E (format_multiline E (text_of (test_description m)) ind) ''white'' [''dim''] @ [NL]"

definition format_attribute :: "externals \<Rightarrow> state \<Rightarrow> msg \<Rightarrow> string" where
  "format_attribute E st m =
     (let ind = py_repeat indent (py_count (test_id m) CHR ''/'' - 1);
          out = (case last_message st of
                   None \<Rightarrow> []
                 | Some lm \<Rightarrow>
                     if \<not> (message_keyword lm = ''ATTRIBUTE'')
                     then [ind @ py_repeat '' '' 2 @ color_secondary_keyword E ''Attributes'']
                     else []);
          out1 = out @ [color E (indent @ py_repeat '' '' 2 @ attribute_name m) ''white'' [''dim'']];
          out2 = out1 @ [color E (indent @ py_repeat '' '' 4 @ attribute_value m) ''white'' [''dim'']]
      in join [NL] out2 @ [NL])"

definition get_type :: "msg \<Rightarrow> TestType option" where
  "get_type m = TestType_getattr (test_type m)"

definition get_subtype :: "msg \<Rightarrow> TestSubType option" where
  "get_subtype m = TestSubType_getattr (py_str (test_subtype m))"

text \<open>\<open>tests_by_parent.get(parent_id, [])\<close>.\<close>

definition children_of :: "state \<Rightarrow> string \<Rightarrow> msg list" where
  "children_of st parent_id = (case tests_by_parent st parent_id of None \<Rightarrow> [] | Some xs \<Rightarrow> xs)"

text \<open>
  \<open>and_keyword\<close> reads the module-level maps. A message is a non-empty mapping, so
  \<open>if prev\<close> and \<open>if parent\<close> only test for \<open>None\<close>.
\<close>

definition and_keyword :: "state \<Rightarrow> msg \<Rightarrow> string \<Rightarrow> string \<Rightarrow> TestSubType \<Rightarrow> string" where
  "and_keyword st m parent_id keyword subtype =
     (let sibs = children_of st parent_id;
          prev = (if length sibs > 1 then Some (sibs ! (length sibs - 2)) else None);
          keyword1 = (case prev of
                        None \<Rightarrow> keyword
                      | Some p \<Rightarrow>
                          if get_subtype p = Some subtype \<and> tests_by_parent st (test_id p) = None
                          then ''And'' else keyword);
          parent = tests_by_id st parent_id
      in case parent of
           None \<Rightarrow> keyword1
         | Some p \<Rightarrow>
             if get_subtype p = Some subtype \<and> length sibs = 1 then ''And'' else keyword1)"

text \<open>
  The first four statements of \<open>format_test\<close>: the message is appended to the list of
  its parent (made on first use) and stored under its own id.
\<close>

definition record_test :: "externals \<Rightarrow> state \<Rightarrow> msg \<Rightarrow> state" where
  "record_test E st m =
     (let parent = parentname E (test_id m);
          by_parent = (case tests_by_parent st parent of
                         None \<Rightarrow> (tests_by_parent st)(parent \<mapsto> [])
                       | Some xs \<Rightarrow> tests_by_parent st);
          by_parent1 = (case by_parent parent of
                          None \<Rightarrow> by_parent
                        | Some xs \<Rightarrow> by_parent(parent \<mapsto> xs @ [m]))
      in st\<lparr>tests_by_parent := by_parent1, tests_by_id := (tests_by_id st)(test_id m \<mapsto> m)\<rparr>)"

text \<open>The \<open>if\<close>/\<open>elif\<close> chain of \<open>format_test\<close> that extends the keyword.\<close>

definition test_keyword :: "state \<Rightarrow> msg \<Rightarrow> string \<Rightarrow> TestType \<Rightarrow> TestSubType option \<Rightarrow> string" where
  "test_keyword st m parent ty sub =
     (if ty = Module then ''Module''
      else if ty = Suite then (if sub = Some Feature then ''Feature'' else ''Suite'')
      else if ty = Iteration then ''Iteration''
      else if ty = Step then
        (if sub = Some And then ''And''
         else if sub = Some Given then and_keyword st m parent ''Given'' Given
         else if sub = Some When then and_keyword st m parent ''When'' When
         else if sub = Some Then then and_keyword st m parent ''Then'' Then
         else if sub = Some By then and_keyword st m parent ''By'' By
         else if sub = Some But then and_keyword st m parent ''But'' But
         else if sub = Some Finally then and_keyword st m parent ''Finally'' Finally
         else ''Step'')
      else
        (if sub = Some Scenario then ''Scenario''
         else if sub = Some Background then ''Background''
         else ''Test''))"

text \<open>
  The last statements of \<open>format_test\<close>: the line of the test under its final keyword,
  and the description when the message has one.
\<close>

definition test_line :: "externals \<Rightarrow> msg \<Rightarrow> string \<Rightarrow> string" where
  "test_line E m keyword =
     (let kw = color_keyword E keyword;
          name = color_test_name E (split_last E (test_name m));
          ind = py_repeat indent (py_count (test_id m) CHR ''/'' - 1);
          out = ind @ kw @ '' '' @ name @ [NL]
      in if truthy (test_description m) then out @ format_test_description E m ind else out)"

text \<open>
  \<open>format_test\<close>. Its parameters \<open>tests_by_parent\<close> and \<open>tests_by_id\<close> are bound by the
  \<open>formatters\<close> table to the module-level maps themselves, so the function updates the
  state that \<open>and_keyword\<close> reads. An unknown \<open>test_type\<close> raises after the message has
  been recorded.
\<close>

definition format_test :: "externals \<Rightarrow> state \<Rightarrow> msg \<Rightarrow> string \<Rightarrow> state \<times> (error + string)" where
  "format_test E st m keyword =
     (let parent = parentname E (test_id m);
          st1 = record_test E st m
      in case get_type m of
           None \<Rightarrow> (st1, Inl AttributeError)
         | Some ty \<Rightarrow>
             (st1, Inr (test_line E m (keyword @ test_keyword st1 m parent ty (get_subtype m)))))"

definition format_result :: "externals \<Rightarrow> msg \<Rightarrow> string" where
  "format_result E m =
     (let result = result_type m;
          res = color_result E result;
          tst = color_test_name E (basename E (result_test m));
          ind = py_repeat indent (py_count (test_id m) CHR ''/'' - 1);
          out = ind @ res;
          out1 =
            (if result \<in> set [''Fail'', ''Error'', ''Null''] then
               (let o1 = out @ '' '' @ tst
                in if truthy (result_message m)
                   then o1 @ color_test_name E '','' @ '' ''
                          @ color E (lstrip (format_multiline E (text_of (result_message m)) ind))
                              ''yellow'' [''bold'']
                   else o1)
             else if startswith result ''X'' then
               (let o1 = out @ '' '' @ tst
                in if truthy (result_reason m)
                   then o1 @ color_test_name E '','' @ '' ''
                          @ color E (text_of (result_reason m)) ''blue'' [''bold'']
                   else o1)
             else out)
      in out1 @ [NL])"

section \<open>The \<open>formatters\<close> table and \<open>transform\<close>\<close>

datatype formatter = Fmt_input | Fmt_test | Fmt_result | Fmt_attribute

text \<open>\<open>formatters.get(keyword, None)\<close>: the table has four keys.\<close>

definition formatters :: "string \<Rightarrow> formatter option" where
  "formatters k =
     (if k = ''INPUT'' then Some Fmt_input
      else if k = ''TEST'' then Some Fmt_test
      else if k = ''RESULT'' then Some Fmt_result
      else if k = ''ATTRIBUTE'' then Some Fmt_attribute
      else None)"

text \<open>\<open>formatter[0](line, *formatter[1:])\<close>, with the arguments the table stores.\<close>

definition call_formatter :: "externals \<Rightarrow> formatter \<Rightarrow> state \<Rightarrow> msg \<Rightarrow> state \<times> (error + string)" where
  "call_formatter E f st line =
     (case f of
        Fmt_input \<Rightarrow> (st, Inr (format_input E line []))
      | Fmt_test \<Rightarrow> format_test E st line []
      | Fmt_result \<Rightarrow> (st, Inr (format_result E line))
      | Fmt_attribute \<Rightarrow> (st, Inr (format_attribute E st line)))"

text \<open>
  The test \<open>flags & SKIP and settings.show_skipped is False\<close> of \<open>transform\<close>:
  \<open>Flags(...) & SKIP\<close> is true when a bit of \<open>SKIP\<close> is set in the flags of the message.
\<close>

definition suppressed :: "externals \<Rightarrow> msg \<Rightarrow> bool" where
  "suppressed E m = (and (test_flags m) (SKIP E) \<noteq> 0 \<and> show_skipped_False E)"

text \<open>
  One round of the loop of \<open>transform\<close>: the value sent to the generator (\<open>None\<close> or a
  message) and the value it yields back. \<open>Flags(...) & SKIP\<close> is true when a bit of
  \<open>SKIP\<close> is set. An exception of the formatter leaves the generator; \<open>last_message\<close> is
  assigned only after the formatter has returned.
\<close>

definition transform_step :: "externals \<Rightarrow> state \<Rightarrow> msg option \<Rightarrow> state \<times> (error + string option)" where
  "transform_step E st line =
     (case line of
        None \<Rightarrow> (st, Inr None)
      | Some m \<Rightarrow>
          (case formatters (message_keyword m) of
             None \<Rightarrow> (st, Inr None)
           | Some f \<Rightarrow>
               if suppressed E m
               then (st, Inr None)
               else (case call_formatter E f st m of
                       (st1, Inl e) \<Rightarrow> (st1, Inl e)
                     | (st1, Inr out) \<Rightarrow> (st1\<lparr>last_message := Some m\<rparr>, Inr (Some out)))))"

text \<open>
  A run: a transform that is sent the messages of a log one after the other, from the
  state the module-level objects are in when it starts. The run stops at the first
  exception.
\<close>

fun transform_run :: "externals \<Rightarrow> state \<Rightarrow> msg list \<Rightarrow> state \<times> (error + string option list)" where
  "transform_run E st [] = (st, Inr [])"
| "transform_run E st (m # ms) =
     (case transform_step E st (Some m) of
        (st1, Inl e) \<Rightarrow> (st1, Inl e)
      | (st1, Inr out) \<Rightarrow>
          (case transform_run E st1 ms of
             (st2, Inl e) \<Rightarrow> (st2, Inl e)
           | (st2, Inr outs) \<Rightarrow> (st2, Inr (out # outs))))"

section \<open>The And-collapse rule, as the specification words it\<close>

text \<open>The literal keyword of a step subtype.\<close>

fun subtype_name :: "TestSubType \<Rightarrow> string" where
  "subtype_name Feature = ''Feature''"
| "subtype_name Scenario = ''Scenario''"
| "subtype_name Background = ''Background''"
| "subtype_name Given = ''Given''"
| "subtype_name When = ''When''"
| "subtype_name Then = ''Then''"
| "subtype_name By = ''By''"
| "subtype_name But = ''But''"
| "subtype_name Finally = ''Finally''"
| "subtype_name And = ''And''"

text \<open>
  The condition of the rule for a step \<open>m\<close> of subtype \<open>S\<close> that arrives in state \<open>st\<close>
  (before it is recorded): either the last child recorded under the parent of \<open>m\<close> has
  subtype \<open>S\<close> and no recorded children of its own, or no child is recorded under the
  parent yet and the parent node has subtype \<open>S\<close>. The parent node is looked up after
  \<open>m\<close> has been stored under its own id.
\<close>

definition and_collapse :: "externals \<Rightarrow> state \<Rightarrow> msg \<Rightarrow> TestSubType \<Rightarrow> bool" where
  "and_collapse E st m S =
     (let P = parentname E (test_id m); sibs = children_of st P
      in (sibs \<noteq> [] \<and> get_subtype (last sibs) = Some S
            \<and> tests_by_parent st (test_id (last sibs)) = None)
         \<or> (sibs = []
            \<and> (case ((tests_by_id st)(test_id m \<mapsto> m)) P of
                  None \<Rightarrow> False
                | Some p \<Rightarrow> get_subtype p = Some S)))"

section \<open>The parts of an attribute block\<close>

text \<open>
  The section header that \<open>format_attribute\<close> may put first, and the two lines (name and
  value) it always produces, each line with its newline.
\<close>

definition attributes_header :: "externals \<Rightarrow> msg \<Rightarrow> string" where
  "attributes_header E m =
     py_repeat indent (py_count (test_id m) CHR ''/'' - 1) @ py_repeat '' '' 2
       @ color_secondary_keyword E ''Attributes'' @ [NL]"

definition attribute_pair :: "externals \<Rightarrow> msg \<Rightarrow> string" where
  "attribute_pair E m =
     color E (indent @ py_repeat '' '' 2 @ attribute_name m) ''white'' [''dim''] @ [NL]
       @ color E (indent @ py_repeat '' '' 4 @ attribute_value m) ''white'' [''dim''] @ [NL]"

section \<open>Sample externals and sample messages\<close>

text \<open>
  Modelled from the spec: \<open>testflows/_core/name.py\<close>, \<open>cli/colors.py\<close>, \<open>flags.py\<close> and
  \<open>settings.py\<close> are not among the sources. The sample externals below are one instance
  of the parameters, used to run the model on concrete logs: ids are paths separated by
  \<open>/\<close>, the parent id is the path with its last segment removed, the display name is the
  last segment, colours are switched off (\<open>color\<close> returns its text), \<open>SKIP\<close> is one flag
  bit and skipped messages are suppressed. The theorems that follow hold for every
  instance.
\<close>

definition last_segment :: "string \<Rightarrow> string" where
  "last_segment s = rev (takeWhile (\<lambda>c. c \<noteq> CHR ''/'') (rev s))"

definition remove_last_segment :: "string \<Rightarrow> string" where
  "remove_last_segment s = rev (drop 1 (dropWhile (\<lambda>c. c \<noteq> CHR ''/'') (rev s)))"

definition sample_externals :: externals where
  "sample_externals =
     \<lparr>color = (\<lambda>txt colour attrs. txt),
      cursor_up = [CHR 0x1B, CHR ''['', CHR ''A''],
      split_last = last_segment,
      parentname = remove_last_segment,
      basename = last_segment,
      SKIP = 4,
      show_skipped_False = True,
      textwrap_dedent = (\<lambda>txt. txt),
      textwrap_indent = (\<lambda>txt prefix. prefix @ txt)\<rparr>"

definition blank_msg :: msg where
  "blank_msg =
     \<lparr>message_keyword = [], test_id = [], test_flags = 0, test_type = [],
      test_subtype = None, test_name = [], test_description = None, message = [],
      attribute_name = [], attribute_value = [], result_type = [], result_test = [],
      result_message = None, result_reason = None\<rparr>"

text \<open>A TEST message: id, type, subtype and name.\<close>

definition test_msg :: "string \<Rightarrow> string \<Rightarrow> string \<Rightarrow> string \<Rightarrow> msg" where
  "test_msg tid ty sub name =
     blank_msg\<lparr>message_keyword := ''TEST'', test_id := tid, test_type := ty,
       test_subtype := Some sub, test_name := name\<rparr>"

text \<open>A RESULT message of the test \<open>tid\<close>.\<close>

definition result_msg :: "string \<Rightarrow> string \<Rightarrow> msg" where
  "result_msg tid res =
     blank_msg\<lparr>message_keyword := ''RESULT'', test_id := tid, result_type := res,
       result_test := tid\<rparr>"

text \<open>An ATTRIBUTE message of the test \<open>tid\<close>.\<close>

definition attribute_msg :: "string \<Rightarrow> string \<Rightarrow> string \<Rightarrow> msg" where
  "attribute_msg tid name val =
     blank_msg\<lparr>message_keyword := ''ATTRIBUTE'', test_id := tid, attribute_name := name,
       attribute_value := val\<rparr>"

text \<open>A message of a kind that has no formatter.\<close>

definition note_msg :: "string \<Rightarrow> msg" where
  "note_msg tid = blank_msg\<lparr>message_keyword := ''NOTE'', test_id := tid\<rparr>"

text \<open>
  The log of the specification's end-to-end scenario, and a third \<open>Given\<close> step after it.
\<close>

definition feature_A :: msg where
  "feature_A = test_msg ''/A'' ''Suite'' ''Feature'' ''/A''"

definition given_1 :: msg where
  "given_1 = test_msg ''/A/1'' ''Step'' ''Given'' ''setup''"

definition given_2 :: msg where
  "given_2 = test_msg ''/A/2'' ''Step'' ''Given'' ''more setup''"

definition given_3 :: msg where
  "given_3 = test_msg ''/A/3'' ''Step'' ''Given'' ''last setup''"

definition result_A :: msg where
  "result_A = result_msg ''/A'' ''OK''"

text \<open>A scenario whose \<open>Given\<close> step is elaborated into three \<open>Given\<close> steps.\<close>

definition scenario_B :: msg where
  "scenario_B = test_msg ''/B'' ''Test'' ''Scenario'' ''/B''"

definition given_cluster :: msg where
  "given_cluster = test_msg ''/B/1'' ''Step'' ''Given'' ''/B/cluster''"

definition given_node_1 :: msg where
  "given_node_1 = test_msg ''/B/1/1'' ''Step'' ''Given'' ''/B/cluster/node 1''"

definition given_node_2 :: msg where
  "given_node_2 = test_msg ''/B/1/2'' ''Step'' ''Given'' ''/B/cluster/node 2''"

definition given_node_3 :: msg where
  "given_node_3 = test_msg ''/B/1/3'' ''Step'' ''Given'' ''/B/cluster/node 3''"

text \<open>
  A failed result with a message, an expected failure with a reason, two attributes, and
  a second message with the id \<open>/A/1\<close>.
\<close>

definition result_fail :: msg where
  "result_fail = (result_msg ''/A/1'' ''Fail'')\<lparr>result_message := Some ''boom''\<rparr>"

definition result_xfail :: msg where
  "result_xfail = (result_msg ''/A/2'' ''XFail'')\<lparr>result_reason := Some ''known issue''\<rparr>"

definition attribute_1 :: msg where
  "attribute_1 = attribute_msg ''/A'' ''owner'' ''qa''"

definition attribute_2 :: msg where
  "attribute_2 = attribute_msg ''/A'' ''priority'' ''high''"

definition when_1_again :: msg where
  "when_1_again = test_msg ''/A/1'' ''Step'' ''When'' ''again''"

text \<open>An INPUT message of the test \<open>/A\<close>.\<close>

definition input_A :: msg where
  "input_A = blank_msg\<lparr>message_keyword := ''INPUT'', test_id := ''/A'', message := ''continue?''\<rparr>"

section \<open>Basic facts\<close>

lemma concat_replicate_two_spaces: "concat (replicate k ''  '') = replicate (2 * k) CHR '' ''"
  by (induction k) simp_all

lemma py_repeat_indent: "py_repeat indent n = replicate (2 * nat n) CHR '' ''"
  by (simp add: py_repeat_def indent_def numeral_2_eq_2 concat_replicate_two_spaces)

lemma last_message_record_test [simp]: "last_message (record_test E st m) = last_message st"
  by (simp add: record_test_def Let_def)

lemma last_message_format_test [simp]:
  "last_message (fst (format_test E st m kw)) = last_message st"
  by (simp add: format_test_def Let_def split: option.splits)

lemma last_message_call_formatter [simp]:
  "last_message (fst (call_formatter E f st m)) = last_message st"
  by (cases f) (simp_all add: call_formatter_def)

lemma transform_step_result:
  assumes "message_keyword m = ''RESULT''" and "\<not> suppressed E m"
  shows "transform_step E st (Some m) = (st\<lparr>last_message := Some m\<rparr>, Inr (Some (format_result E m)))"
  using assms by (simp add: transform_step_def formatters_def call_formatter_def)

lemma transform_step_attribute:
  assumes "message_keyword m = ''ATTRIBUTE''" and "\<not> suppressed E m"
  shows "transform_step E st (Some m) =
           (st\<lparr>last_message := Some m\<rparr>, Inr (Some (format_attribute E st m)))"
  using assms by (simp add: transform_step_def formatters_def call_formatter_def)

lemma transform_step_test:
  assumes "message_keyword m = ''TEST''" and "\<not> suppressed E m" and "get_type m = Some ty"
  shows "transform_step E st (Some m) =
           ((record_test E st m)\<lparr>last_message := Some m\<rparr>,
            Inr (Some (test_line E m
              (test_keyword (record_test E st m) m (parentname E (test_id m)) ty (get_subtype m)))))"
  using assms by (simp add: transform_step_def formatters_def call_formatter_def format_test_def Let_def)

lemma format_attribute_parts:
  "format_attribute E st m =
     (if (case last_message st of None \<Rightarrow> False | Some lm \<Rightarrow> message_keyword lm \<noteq> ''ATTRIBUTE'')
      then attributes_header E m else []) @ attribute_pair E m"
  by (simp add: format_attribute_def attributes_header_def attribute_pair_def Let_def
      split: option.splits)

section \<open>The And-collapse rule\<close>

lemma tests_by_parent_record_test:
  "tests_by_parent (record_test E st m) k =
     (if k = parentname E (test_id m) then Some (children_of st k @ [m]) else tests_by_parent st k)"
  by (simp add: record_test_def Let_def children_of_def split: option.splits)

lemma children_of_record_test:
  "children_of (record_test E st m) k =
     (if k = parentname E (test_id m) then children_of st k @ [m] else children_of st k)"
  by (simp add: children_of_def tests_by_parent_record_test)

lemma tests_by_id_record_test:
  "tests_by_id (record_test E st m) = (tests_by_id st)(test_id m \<mapsto> m)"
  by (simp add: record_test_def Let_def)

lemma and_keyword_record_test:
  "and_keyword (record_test E st m) m (parentname E (test_id m)) kw S =
     (if and_collapse E st m S then ''And'' else kw)"
proof (cases "children_of st (parentname E (test_id m))" rule: rev_cases)
  case Nil
  then show ?thesis
    by (simp add: and_keyword_def and_collapse_def Let_def children_of_record_test
        tests_by_id_record_test split: option.splits)
next
  case (snoc ys y)
  then have "tests_by_parent st (parentname E (test_id m)) \<noteq> None"
    by (auto simp: children_of_def split: option.splits)
  with snoc show ?thesis
    by (auto simp add: and_keyword_def and_collapse_def Let_def children_of_record_test
        tests_by_id_record_test tests_by_parent_record_test nth_append split: option.splits)
qed

lemma test_keyword_collapsible:
  assumes "S \<in> {Given, When, Then, By, But, Finally}"
  shows "test_keyword st m P Step (Some S) = and_keyword st m P (subtype_name S) S"
  using assms by (auto simp: test_keyword_def)


lemma fst_format_test: "fst (format_test E st m kw) = record_test E st m"
  by (simp add: format_test_def Let_def split: option.splits)

lemma snd_format_test_collapsible:
  assumes "get_type m = Some Step" and "get_subtype m = Some S"
    and "S \<in> {Given, When, Then, By, But, Finally}"
  shows "snd (format_test E st m kw) =
           Inr (test_line E m (kw @ (if and_collapse E st m S then ''And'' else subtype_name S)))"
  using assms
  by (simp add: format_test_def Let_def test_keyword_collapsible and_keyword_record_test)

lemma and_collapse_after_leaf:
  assumes "get_subtype ga = Some S"
    and "parentname E (test_id ga) = P" and "parentname E (test_id gb) = P"
    and "tests_by_parent st (test_id ga) = None" and "test_id ga \<noteq> P"
  shows "and_collapse E (record_test E st ga) gb S"
  using assms
  by (simp add: and_collapse_def Let_def children_of_record_test tests_by_parent_record_test)

text \<open>
  C1 (as amended). For a Step message of subtype \<open>S\<close> among Given, When, Then, By, But
  and Finally, \<open>format_test\<close> renders the keyword \<open>And\<close> exactly when the condition
  \<open>and_collapse\<close> holds (the sibling recorded last under the same parent has subtype \<open>S\<close>
  and no recorded children, or the parent node has subtype \<open>S\<close> and the step is its first
  recorded child), and the literal name of \<open>S\<close> otherwise. For three \<open>Given\<close> steps
  formatted one after the other under one parent, the first two without recorded
  children, the second and the third are rendered \<open>And\<close>; the first is rendered \<open>Given\<close>
  only when the condition does not hold for it, and \<open>And\<close> when it does.
\<close>

theorem and_collapse_rule:
  "(get_type m = Some Step \<and> get_subtype m = Some S
      \<and> S \<in> {Given, When, Then, By, But, Finally}
    \<longrightarrow> snd (format_test E st m kw) =
          Inr (test_line E m (kw @ (if and_collapse E st m S then ''And'' else subtype_name S))))
   \<and> (get_type ga = Some Step \<and> get_type gb = Some Step \<and> get_type gc = Some Step
      \<and> get_subtype ga = Some Given \<and> get_subtype gb = Some Given \<and> get_subtype gc = Some Given
      \<and> parentname E (test_id ga) = P \<and> parentname E (test_id gb) = P
      \<and> parentname E (test_id gc) = P
      \<and> tests_by_parent st (test_id ga) = None \<and> tests_by_parent st (test_id gb) = None
      \<and> test_id ga \<noteq> P \<and> test_id gb \<noteq> P
    \<longrightarrow> snd (format_test E st ga kw) =
          Inr (test_line E ga (kw @ (if and_collapse E st ga Given then ''And'' else ''Given'')))
        \<and> snd (format_test E (fst (format_test E st ga kw)) gb kw) =
          Inr (test_line E gb (kw @ ''And''))
        \<and> snd (format_test E (fst (format_test E (fst (format_test E st ga kw)) gb kw)) gc kw) =
          Inr (test_line E gc (kw @ ''And'')))"
proof (intro conjI impI)
  assume "get_type m = Some Step \<and> get_subtype m = Some S
      \<and> S \<in> {Given, When, Then, By, But, Finally}"
  then show "snd (format_test E st m kw) =
          Inr (test_line E m (kw @ (if and_collapse E st m S then ''And'' else subtype_name S)))"
    by (simp add: snd_format_test_collapsible)
next
  assume h: "get_type ga = Some Step \<and> get_type gb = Some Step \<and> get_type gc = Some Step
      \<and> get_subtype ga = Some Given \<and> get_subtype gb = Some Given \<and> get_subtype gc = Some Given
      \<and> parentname E (test_id ga) = P \<and> parentname E (test_id gb) = P
      \<and> parentname E (test_id gc) = P
      \<and> tests_by_parent st (test_id ga) = None \<and> tests_by_parent st (test_id gb) = None
      \<and> test_id ga \<noteq> P \<and> test_id gb \<noteq> P"
  have given: "Given \<in> {Given, When, Then, By, But, Finally}" by simp
  show "snd (format_test E st ga kw) =
          Inr (test_line E ga (kw @ (if and_collapse E st ga Given then ''And'' else ''Given'')))"
    using h snd_format_test_collapsible [OF _ _ given, of ga E st kw] by simp
  have c2: "and_collapse E (record_test E st ga) gb Given"
    using h by (intro and_collapse_after_leaf [where P = P]) simp_all
  show "snd (format_test E (fst (format_test E st ga kw)) gb kw) =
          Inr (test_line E gb (kw @ ''And''))"
    using h c2 snd_format_test_collapsible [OF _ _ given, of gb E "record_test E st ga" kw]
    by (simp add: fst_format_test)
  have "tests_by_parent (record_test E st ga) (test_id gb) = None"
    using h by (simp add: tests_by_parent_record_test)
  then have c3: "and_collapse E (record_test E (record_test E st ga) gb) gc Given"
    using h by (intro and_collapse_after_leaf [where P = P]) simp_all
  show "snd (format_test E (fst (format_test E (fst (format_test E st ga kw)) gb kw)) gc kw) =
          Inr (test_line E gc (kw @ ''And''))"
    using h c3
      snd_format_test_collapsible [OF _ _ given, of gc E "record_test E (record_test E st ga) gb" kw]
    by (simp add: fst_format_test)
qed

text \<open>
  The theorem at the scenario's log: after the Feature \<open>/A\<close>, the steps \<open>/A/1\<close>, \<open>/A/2\<close>
  and \<open>/A/3\<close> are rendered \<open>Given\<close>, \<open>And\<close>, \<open>And\<close>.
\<close>

theorem and_collapse_rule_witness:
  "snd (format_test sample_externals
          (fst (format_test sample_externals initial_state feature_A [])) given_1 [])
     = Inr (''  Given setup'' @ [NL])
   \<and> snd (format_test sample_externals
          (fst (format_test sample_externals
             (fst (format_test sample_externals initial_state feature_A [])) given_1 []))
          given_2 [])
     = Inr (''  And more setup'' @ [NL])
   \<and> snd (format_test sample_externals
          (fst (format_test sample_externals
             (fst (format_test sample_externals
                (fst (format_test sample_externals initial_state feature_A [])) given_1 []))
             given_2 []))
          given_3 [])
     = Inr (''  And last setup'' @ [NL])"
proof -
  define st where "st = fst (format_test sample_externals initial_state feature_A [])"
  have types: "get_type given_1 = Some Step \<and> get_type given_2 = Some Step
      \<and> get_type given_3 = Some Step \<and> get_subtype given_1 = Some Given
      \<and> get_subtype given_2 = Some Given \<and> get_subtype given_3 = Some Given"
    by code_simp
  have parents: "parentname sample_externals (test_id given_1) = ''/A''
      \<and> parentname sample_externals (test_id given_2) = ''/A''
      \<and> parentname sample_externals (test_id given_3) = ''/A''
      \<and> test_id given_1 \<noteq> ''/A'' \<and> test_id given_2 \<noteq> ''/A''"
    by code_simp
  have leaves: "tests_by_parent st (test_id given_1) = None
      \<and> tests_by_parent st (test_id given_2) = None"
    unfolding st_def by code_simp
  have first: "\<not> and_collapse sample_externals st given_1 Given"
    unfolding st_def by code_simp
  have lines: "test_line sample_externals given_1 ([] @ ''Given'') = ''  Given setup'' @ [NL]
      \<and> test_line sample_externals given_2 ([] @ ''And'') = ''  And more setup'' @ [NL]
      \<and> test_line sample_externals given_3 ([] @ ''And'') = ''  And last setup'' @ [NL]"
    by code_simp
  from and_collapse_rule [where m = given_1 and S = Given and E = sample_externals
      and st = st and kw = "[]" and ga = given_1 and gb = given_2 and gc = given_3
      and P = "''/A''"] types parents leaves first lines
  show ?thesis unfolding st_def by simp
qed

text \<open>
  The last sentence of the claim as stated fails: the three \<open>Given\<close> steps that elaborate
  the \<open>Given\<close> step \<open>/B/1\<close> are consecutive, under one parent and without children, and
  are rendered \<open>And\<close>, \<open>And\<close>, \<open>And\<close>.
\<close>

theorem three_givens_under_given_parent:
  "snd (transform_run sample_externals initial_state
          [scenario_B, given_cluster, given_node_1, given_node_2, given_node_3])
     = Inr [Some (''Scenario B'' @ [NL]), Some (''  Given cluster'' @ [NL]),
            Some (''    And node 1'' @ [NL]), Some (''    And node 2'' @ [NL]),
            Some (''    And node 3'' @ [NL])]
   \<and> children_of (fst (transform_run sample_externals initial_state
          [scenario_B, given_cluster, given_node_1, given_node_2, given_node_3])) ''/B/1''
     = [given_node_1, given_node_2, given_node_3]
   \<and> children_of (fst (transform_run sample_externals initial_state
          [scenario_B, given_cluster, given_node_1, given_node_2, given_node_3])) ''/B/1/1'' = []
   \<and> children_of (fst (transform_run sample_externals initial_state
          [scenario_B, given_cluster, given_node_1, given_node_2, given_node_3])) ''/B/1/2'' = []
   \<and> children_of (fst (transform_run sample_externals initial_state
          [scenario_B, given_cluster, given_node_1, given_node_2, given_node_3])) ''/B/1/3'' = []"
  by code_simp

section \<open>Result lines\<close>

text \<open>
  C2 (as amended). A RESULT message that is not suppressed is rendered as one line. For
  the result types Fail, Error and Null the line holds the indent, the coloured result
  token, a space and the display name of the test, and then, when the message is not
  empty, a comma, a space and the coloured message. For every type that starts with
  \<open>X\<close> it holds the indent, the token, a space and the name, and then, when the reason
  is not empty, a comma, a space and the coloured reason. For every other result type,
  OK and Skip among them, the line holds the indent and the coloured result token only:
  the name of the test is not part of it.
\<close>

theorem result_line:
  "message_keyword m = ''RESULT'' \<and> \<not> suppressed E m \<longrightarrow>
     snd (transform_step E st (Some m)) =
       Inr (Some
         (py_repeat indent (py_count (test_id m) CHR ''/'' - 1)
            @ color_result E (result_type m)
            @ (if result_type m \<in> set [''Fail'', ''Error'', ''Null'']
               then '' '' @ color_test_name E (basename E (result_test m))
                      @ (if truthy (result_message m)
                         then color_test_name E '','' @ '' ''
                                @ color E
                                    (lstrip (format_multiline E (text_of (result_message m))
                                       (py_repeat indent (py_count (test_id m) CHR ''/'' - 1))))
                                    ''yellow'' [''bold'']
                         else [])
               else if startswith (result_type m) ''X''
               then '' '' @ color_test_name E (basename E (result_test m))
                      @ (if truthy (result_reason m)
                         then color_test_name E '','' @ '' ''
                                @ color E (text_of (result_reason m)) ''blue'' [''bold'']
                         else [])
               else [])
            @ [NL]))"
  by (simp add: transform_step_result format_result_def Let_def)

text \<open>
  The theorem at a failed result with a message, at an expected failure with a reason,
  and at the OK result of \<open>/A\<close>.
\<close>

theorem result_line_witness:
  "message_keyword result_fail = ''RESULT'' \<and> \<not> suppressed sample_externals result_fail
   \<and> snd (transform_step sample_externals initial_state (Some result_fail))
        = Inr (Some (''  Fail 1, boom'' @ [NL]))
   \<and> message_keyword result_xfail = ''RESULT'' \<and> \<not> suppressed sample_externals result_xfail
   \<and> snd (transform_step sample_externals initial_state (Some result_xfail))
        = Inr (Some (''  XFail 2, known issue'' @ [NL]))
   \<and> message_keyword result_A = ''RESULT'' \<and> \<not> suppressed sample_externals result_A
   \<and> snd (transform_step sample_externals initial_state (Some result_A))
        = Inr (Some (''OK'' @ [NL]))"
proof -
  have h: "message_keyword result_fail = ''RESULT'' \<and> \<not> suppressed sample_externals result_fail
      \<and> message_keyword result_xfail = ''RESULT'' \<and> \<not> suppressed sample_externals result_xfail
      \<and> message_keyword result_A = ''RESULT'' \<and> \<not> suppressed sample_externals result_A"
    by code_simp
  have fail: "py_repeat indent (py_count (test_id result_fail) CHR ''/'' - 1)
            @ color_result sample_externals (result_type result_fail)
            @ (if result_type result_fail \<in> set [''Fail'', ''Error'', ''Null'']
               then '' '' @ color_test_name sample_externals
                              (basename sample_externals (result_test result_fail))
                      @ (if truthy (result_message result_fail)
                         then color_test_name sample_externals '','' @ '' ''
                                @ color sample_externals
                                    (lstrip (format_multiline sample_externals
                                       (text_of (result_message result_fail))
                                       (py_repeat indent
                                          (py_count (test_id result_fail) CHR ''/'' - 1))))
                                    ''yellow'' [''bold'']
                         else [])
               else if startswith (result_type result_fail) ''X''
               then '' '' @ color_test_name sample_externals
                              (basename sample_externals (result_test result_fail))
                      @ (if truthy (result_reason result_fail)
                         then color_test_name sample_externals '','' @ '' ''
                                @ color sample_externals (text_of (result_reason result_fail))
                                    ''blue'' [''bold'']
                         else [])
               else [])
            @ [NL] = ''  Fail 1, boom'' @ [NL]"
    by code_simp
  have xfail: "py_repeat indent (py_count (test_id result_xfail) CHR ''/'' - 1)
            @ color_result sample_externals (result_type result_xfail)
            @ (if result_type result_xfail \<in> set [''Fail'', ''Error'', ''Null'']
               then '' '' @ color_test_name sample_externals
                              (basename sample_externals (result_test result_xfail))
                      @ (if truthy (result_message result_xfail)
                         then color_test_name sample_externals '','' @ '' ''
                                @ color sample_externals
                                    (lstrip (format_multiline sample_externals
                                       (text_of (result_message result_xfail))
                                       (py_repeat indent
                                          (py_count (test_id result_xfail) CHR ''/'' - 1))))
                                    ''yellow'' [''bold'']
                         else [])
               else if startswith (result_type result_xfail) ''X''
               then '' '' @ color_test_name sample_externals
                              (basename sample_externals (result_test result_xfail))
                      @ (if truthy (result_reason result_xfail)
                         then color_test_name sample_externals '','' @ '' ''
                                @ color sample_externals (text_of (result_reason result_xfail))
                                    ''blue'' [''bold'']
                         else [])
               else [])
            @ [NL] = ''  XFail 2, known issue'' @ [NL]"
    by code_simp
  have ok: "py_repeat indent (py_count (test_id result_A) CHR ''/'' - 1)
            @ color_result sample_externals (result_type result_A)
            @ (if result_type result_A \<in> set [''Fail'', ''Error'', ''Null'']
               then '' '' @ color_test_name sample_externals
                              (basename sample_externals (result_test result_A))
                      @ (if truthy (result_message result_A)
                         then color_test_name sample_externals '','' @ '' ''
                                @ color sample_externals
                                    (lstrip (format_multiline sample_externals
                                       (text_of (result_message result_A))
                                       (py_repeat indent
                                          (py_count (test_id result_A) CHR ''/'' - 1))))
                                    ''yellow'' [''bold'']
                         else [])
               else if startswith (result_type result_A) ''X''
               then '' '' @ color_test_name sample_externals
                              (basename sample_externals (result_test result_A))
                      @ (if truthy (result_reason result_A)
                         then color_test_name sample_externals '','' @ '' ''
                                @ color sample_externals (text_of (result_reason result_A))
                                    ''blue'' [''bold'']
                         else [])
               else [])
            @ [NL] = ''OK'' @ [NL]"
    by code_simp
  from result_line [where m = result_fail and E = sample_externals and st = initial_state] h
  have 1: "snd (transform_step sample_externals initial_state (Some result_fail))
        = Inr (Some (''  Fail 1, boom'' @ [NL]))"
    unfolding fail by blast
  from result_line [where m = result_xfail and E = sample_externals and st = initial_state] h
  have 2: "snd (transform_step sample_externals initial_state (Some result_xfail))
        = Inr (Some (''  XFail 2, known issue'' @ [NL]))"
    unfolding xfail by blast
  from result_line [where m = result_A and E = sample_externals and st = initial_state] h
  have 3: "snd (transform_step sample_externals initial_state (Some result_A))
        = Inr (Some (''OK'' @ [NL]))"
    unfolding ok by blast
  from h 1 2 3 show ?thesis by blast
qed

text \<open>
  The claim as stated fails at the specification's end-to-end scenario: the last line is
  \<open>OK\<close>, without the name \<open>A\<close>.
\<close>

theorem ok_result_without_name:
  "snd (transform_run sample_externals initial_state [feature_A, given_1, given_2, result_A])
     = Inr [Some (''Feature A'' @ [NL]), Some (''  Given setup'' @ [NL]),
            Some (''  And more setup'' @ [NL]), Some (''OK'' @ [NL])]"
  by code_simp

section \<open>Recording tests: unknown parents and repeated ids\<close>

text \<open>
  C3 (as amended). A TEST message that is not suppressed and has a known test type is
  processed without error also when its parent id was never recorded: a line is
  produced, the message is stored under its id and appended to the list of children of
  its parent id, which is made on first use. \<open>format_test\<close> holds no check of the parent.
\<close>

theorem test_without_recorded_parent:
  "message_keyword m = ''TEST'' \<and> \<not> suppressed E m \<and> get_type m = Some ty
     \<and> tests_by_id st (parentname E (test_id m)) = None
   \<longrightarrow> (\<exists>line. snd (transform_step E st (Some m)) = Inr (Some line))
       \<and> tests_by_id (fst (transform_step E st (Some m))) (test_id m) = Some m
       \<and> children_of (fst (transform_step E st (Some m))) (parentname E (test_id m))
           = children_of st (parentname E (test_id m)) @ [m]"
  by (auto simp add: transform_step_test tests_by_id_record_test children_of_def
      tests_by_parent_record_test)

text \<open>The theorem at the step \<open>/A/1\<close> sent first, when \<open>/A\<close> is not recorded.\<close>

theorem test_without_recorded_parent_witness:
  "message_keyword given_1 = ''TEST'' \<and> \<not> suppressed sample_externals given_1
   \<and> get_type given_1 = Some Step
   \<and> tests_by_id initial_state (parentname sample_externals (test_id given_1)) = None
   \<and> (\<exists>line. snd (transform_step sample_externals initial_state (Some given_1)) = Inr (Some line))
   \<and> tests_by_id (fst (transform_step sample_externals initial_state (Some given_1))) ''/A/1''
        = Some given_1
   \<and> children_of (fst (transform_step sample_externals initial_state (Some given_1))) ''/A''
        = [given_1]"
proof -
  have h: "message_keyword given_1 = ''TEST'' \<and> \<not> suppressed sample_externals given_1
      \<and> get_type given_1 = Some Step
      \<and> tests_by_id initial_state (parentname sample_externals (test_id given_1)) = None"
    by code_simp
  have e: "test_id given_1 = ''/A/1'' \<and> parentname sample_externals ''/A/1'' = ''/A''
      \<and> children_of initial_state ''/A'' = []"
    by code_simp
  from test_without_recorded_parent [where m = given_1 and E = sample_externals
      and st = initial_state and ty = Step] h e
  show ?thesis by simp
qed

text \<open>
  The claim as stated fails: the step \<open>/A/1\<close> is rendered and recorded although nothing
  is recorded for \<open>/A\<close>.
\<close>

theorem unrecorded_parent_accepted:
  "tests_by_id initial_state ''/A'' = None
   \<and> tests_by_parent initial_state ''/A'' = None
   \<and> parentname sample_externals (test_id given_1) = ''/A''
   \<and> snd (transform_step sample_externals initial_state (Some given_1))
        = Inr (Some (''  Given setup'' @ [NL]))
   \<and> tests_by_id (fst (transform_step sample_externals initial_state (Some given_1))) ''/A/1''
        = Some given_1"
  by code_simp

text \<open>
  C4 (as amended). A TEST message that is not suppressed and has a known test type is
  processed without error also when its id is already recorded: a line is produced,
  the entry of the id map is overwritten with the new message, and the message is
  appended to the children of its parent (where the earlier message stays).
\<close>

theorem test_with_recorded_id:
  "message_keyword m = ''TEST'' \<and> \<not> suppressed E m \<and> get_type m = Some ty
     \<and> tests_by_id st (test_id m) = Some m0
   \<longrightarrow> (\<exists>line. snd (transform_step E st (Some m)) = Inr (Some line))
       \<and> tests_by_id (fst (transform_step E st (Some m))) (test_id m) = Some m
       \<and> children_of (fst (transform_step E st (Some m))) (parentname E (test_id m))
           = children_of st (parentname E (test_id m)) @ [m]"
  by (auto simp add: transform_step_test tests_by_id_record_test children_of_def
      tests_by_parent_record_test)

text \<open>The theorem at a second message with the id \<open>/A/1\<close>.\<close>

theorem test_with_recorded_id_witness:
  "message_keyword when_1_again = ''TEST'' \<and> \<not> suppressed sample_externals when_1_again
   \<and> get_type when_1_again = Some Step
   \<and> tests_by_id (fst (transform_step sample_externals initial_state (Some given_1)))
        (test_id when_1_again) = Some given_1
   \<and> (\<exists>line. snd (transform_step sample_externals
          (fst (transform_step sample_externals initial_state (Some given_1)))
          (Some when_1_again)) = Inr (Some line))
   \<and> tests_by_id (fst (transform_step sample_externals
          (fst (transform_step sample_externals initial_state (Some given_1)))
          (Some when_1_again))) ''/A/1'' = Some when_1_again
   \<and> children_of (fst (transform_step sample_externals
          (fst (transform_step sample_externals initial_state (Some given_1)))
          (Some when_1_again))) ''/A'' = [given_1, when_1_again]"
proof -
  define st where "st = fst (transform_step sample_externals initial_state (Some given_1))"
  have h: "message_keyword when_1_again = ''TEST'' \<and> \<not> suppressed sample_externals when_1_again
      \<and> get_type when_1_again = Some Step
      \<and> tests_by_id st (test_id when_1_again) = Some given_1"
    unfolding st_def by code_simp
  have e: "test_id when_1_again = ''/A/1''
      \<and> parentname sample_externals ''/A/1'' = ''/A''
      \<and> children_of st ''/A'' = [given_1]"
    unfolding st_def by code_simp
  from test_with_recorded_id [where m = when_1_again and E = sample_externals
      and st = st and ty = Step and ?m0.0 = given_1] h e
  show ?thesis unfolding st_def by simp
qed

text \<open>
  The claim as stated fails: the second message with the id \<open>/A/1\<close> is rendered, and it
  replaces the first one in the id map.
\<close>

theorem duplicate_id_overwrites:
  "test_id given_1 = test_id when_1_again
   \<and> snd (transform_run sample_externals initial_state [feature_A, given_1, when_1_again])
        = Inr [Some (''Feature A'' @ [NL]), Some (''  Given setup'' @ [NL]),
               Some (''  When again'' @ [NL])]
   \<and> tests_by_id (fst (transform_run sample_externals initial_state [feature_A, given_1]))
        ''/A/1'' = Some given_1
   \<and> tests_by_id (fst (transform_run sample_externals initial_state
        [feature_A, given_1, when_1_again])) ''/A/1'' = Some when_1_again"
  by code_simp

section \<open>The header of attribute blocks\<close>

text \<open>
  C5 (as amended). The block of an ATTRIBUTE message that is not suppressed starts with
  the \<open>Attributes\<close> header exactly when some message has been rendered before and the
  one rendered last is not an attribute; when no message has been rendered yet
  (\<open>last_message\<close> is \<open>None\<close>) there is no header. So two attributes in a row that
  follow a rendered message of another kind produce one header, then both name and value
  pairs.
\<close>

theorem attributes_header_rule:
  "(message_keyword m = ''ATTRIBUTE'' \<and> \<not> suppressed E m \<longrightarrow>
      snd (transform_step E st (Some m)) =
        Inr (Some ((if (case last_message st of
                          None \<Rightarrow> False
                        | Some lm \<Rightarrow> message_keyword lm \<noteq> ''ATTRIBUTE'')
                    then attributes_header E m else []) @ attribute_pair E m)))
   \<and> (message_keyword a = ''ATTRIBUTE'' \<and> \<not> suppressed E a
      \<and> message_keyword b = ''ATTRIBUTE'' \<and> \<not> suppressed E b
      \<and> last_message st = Some lm \<and> message_keyword lm \<noteq> ''ATTRIBUTE'' \<longrightarrow>
      snd (transform_run E st [a, b]) =
        Inr [Some (attributes_header E a @ attribute_pair E a), Some (attribute_pair E b)])"
  by (simp add: transform_step_attribute format_attribute_parts)

text \<open>The theorem at two attributes of \<open>/A\<close> that follow its TEST message.\<close>

theorem attributes_header_rule_witness:
  "message_keyword attribute_1 = ''ATTRIBUTE'' \<and> \<not> suppressed sample_externals attribute_1
   \<and> message_keyword attribute_2 = ''ATTRIBUTE'' \<and> \<not> suppressed sample_externals attribute_2
   \<and> last_message (fst (transform_step sample_externals initial_state (Some feature_A)))
        = Some feature_A
   \<and> message_keyword feature_A \<noteq> ''ATTRIBUTE''
   \<and> snd (transform_run sample_externals
        (fst (transform_step sample_externals initial_state (Some feature_A)))
        [attribute_1, attribute_2])
      = Inr [Some (''  Attributes'' @ [NL] @ ''    owner'' @ [NL] @ ''      qa'' @ [NL]),
             Some (''    priority'' @ [NL] @ ''      high'' @ [NL])]"
proof -
  define st where "st = fst (transform_step sample_externals initial_state (Some feature_A))"
  have h: "message_keyword attribute_1 = ''ATTRIBUTE'' \<and> \<not> suppressed sample_externals attribute_1
      \<and> message_keyword attribute_2 = ''ATTRIBUTE'' \<and> \<not> suppressed sample_externals attribute_2
      \<and> last_message st = Some feature_A \<and> message_keyword feature_A \<noteq> ''ATTRIBUTE''"
    unfolding st_def by code_simp
  have e: "attributes_header sample_externals attribute_1 = ''  Attributes'' @ [NL]
      \<and> attribute_pair sample_externals attribute_1 = ''    owner'' @ [NL] @ ''      qa'' @ [NL]
      \<and> attribute_pair sample_externals attribute_2
          = ''    priority'' @ [NL] @ ''      high'' @ [NL]"
    by code_simp
  from attributes_header_rule [where a = attribute_1 and b = attribute_2
      and E = sample_externals and st = st and lm = feature_A and m = attribute_1] h e
  show ?thesis unfolding st_def by simp
qed

text \<open>
  The claim as stated fails where no message has been rendered yet: the first attribute
  of a log has no header.
\<close>

theorem first_attribute_without_header:
  "last_message initial_state = None
   \<and> snd (transform_step sample_externals initial_state (Some attribute_1))
        = Inr (Some (''    owner'' @ [NL] @ ''      qa'' @ [NL]))"
  by code_simp

section \<open>The last rendered message\<close>

text \<open>
  C6 (as amended). After \<open>transform\<close> has processed one value, \<open>last_message\<close> holds that
  message when a formatted block was produced; when nothing was produced (no message
  sent, a kind without formatter, a message dropped as skipped) or the formatter raised,
  \<open>last_message\<close> is what it was before: it is not reset to \<open>None\<close>.
\<close>

theorem last_message_after_step:
  "last_message (fst (transform_step E st line)) =
     (case snd (transform_step E st line) of
        Inr (Some out) \<Rightarrow> line
      | Inr None \<Rightarrow> last_message st
      | Inl e \<Rightarrow> last_message st)"
proof (cases line)
  case None
  then show ?thesis by (simp add: transform_step_def)
next
  case (Some m)
  show ?thesis
  proof (cases "formatters (message_keyword m)")
    case None
    with Some show ?thesis by (simp add: transform_step_def)
  next
    case fm: (Some f)
    obtain st1 r where c: "call_formatter E f st m = (st1, r)"
      by (cases "call_formatter E f st m")
    have l: "last_message st1 = last_message st"
      using last_message_call_formatter [of E f st m] c by simp
    from Some fm c l show ?thesis
      by (cases r) (simp_all add: transform_step_def)
  qed
qed

text \<open>
  The claim as stated fails: after the TEST message of \<open>/A\<close> has been rendered, a NOTE
  message (no formatter) produces nothing, and \<open>last_message\<close> still holds the TEST
  message.
\<close>

theorem last_message_not_reset:
  "snd (transform_step sample_externals
          (fst (transform_step sample_externals initial_state (Some (test_msg ''/A'' ''Suite'' ''Feature'' ''/A''))))
          (Some (note_msg ''/A''))) = Inr None
   \<and> last_message (fst (transform_step sample_externals
          (fst (transform_step sample_externals initial_state (Some (test_msg ''/A'' ''Suite'' ''Feature'' ''/A''))))
          (Some (note_msg ''/A'')))) = Some (test_msg ''/A'' ''Suite'' ''Feature'' ''/A'')"
  by code_simp

section \<open>Runs in one process\<close>

text \<open>
  C7 (as amended). The maps and \<open>last_message\<close> are module-level objects, and
  \<open>transform\<close> neither creates nor resets them: a transform created after an earlier run
  starts from the state that run has left. Its output for a log is therefore the output
  that one transform produces for that log when it is sent the earlier log first; it
  does depend on the earlier log.
\<close>

theorem transform_run_append:
  "transform_run E st (xs @ ys) =
     (case transform_run E st xs of
        (st1, Inl e) \<Rightarrow> (st1, Inl e)
      | (st1, Inr outs1) \<Rightarrow>
          (case transform_run E st1 ys of
             (st2, Inl e) \<Rightarrow> (st2, Inl e)
           | (st2, Inr outs2) \<Rightarrow> (st2, Inr (outs1 @ outs2))))"
  by (induction xs arbitrary: st) (auto split: prod.splits sum.splits)

text \<open>
  The claim as stated fails: rendered a second time in the same process, the log of
  \<open>/A\<close> and \<open>/A/1\<close> shows the step as \<open>And\<close>, not \<open>Given\<close>.
\<close>

theorem second_run_sees_first_run:
  "snd (transform_run sample_externals initial_state [feature_A, given_1])
     = Inr [Some (''Feature A'' @ [NL]), Some (''  Given setup'' @ [NL])]
   \<and> snd (transform_run sample_externals
        (fst (transform_run sample_externals initial_state [feature_A, given_1]))
        [feature_A, given_1])
     = Inr [Some (''Feature A'' @ [NL]), Some (''  And setup'' @ [NL])]"
  by code_simp

section \<open>Indentation by kind of message\<close>

text \<open>
  C10 (as amended). For messages with the same \<open>test_id\<close>, which holds \<open>n\<close> separators:
  the prompt of an INPUT message is indented by two spaces per separator (\<open>2 n\<close>); the
  line of a TEST message and the line of a RESULT message are indented by two spaces
  per separator but one (\<open>2 (n - 1)\<close>, nothing below one separator); the \<open>Attributes\<close>
  header of an ATTRIBUTE block, when the block has one, is indented by two spaces more
  than that. So, when the id holds a separator, the prompt and the \<open>Attributes\<close> header
  stand one level deeper than the TEST and RESULT lines of the test.
\<close>

theorem indentation_by_kind:
  "test_id mi = tid \<and> test_id mt = tid \<and> test_id mr = tid \<and> test_id ma = tid
     \<and> n = py_count tid CHR ''/'' \<and> get_type mt = Some ty
     \<and> last_message st = Some lm \<and> message_keyword lm \<noteq> ''ATTRIBUTE''
   \<longrightarrow> (\<exists>rest. format_input E mi kw =
          replicate (2 * nat n) CHR '' ''
            @ color E (raised_hand @ '' '' @ message mi) ''yellow'' [''bold''] @ rest)
       \<and> (\<exists>k rest. snd (format_test E st mt kw) =
            Inr (replicate (2 * nat (n - 1)) CHR '' '' @ color_keyword E k @ rest))
       \<and> (\<exists>rest. format_result E mr =
            replicate (2 * nat (n - 1)) CHR '' '' @ color_result E (result_type mr) @ rest)
       \<and> (\<exists>rest. format_attribute E st ma =
            replicate (2 * nat (n - 1) + 2) CHR '' ''
              @ color_secondary_keyword E ''Attributes'' @ rest)
       \<and> (1 \<le> n \<longrightarrow> 2 * nat n = 2 * nat (n - 1) + 2)"
proof (intro impI)
  assume h: "test_id mi = tid \<and> test_id mt = tid \<and> test_id mr = tid \<and> test_id ma = tid
     \<and> n = py_count tid CHR ''/'' \<and> get_type mt = Some ty
     \<and> last_message st = Some lm \<and> message_keyword lm \<noteq> ''ATTRIBUTE''"
  have input: "\<exists>rest. format_input E mi kw =
          replicate (2 * nat n) CHR '' ''
            @ color E (raised_hand @ '' '' @ message mi) ''yellow'' [''bold''] @ rest"
    using h by (simp add: format_input_def py_repeat_indent)
  have test: "\<exists>k rest. snd (format_test E st mt kw) =
            Inr (replicate (2 * nat (n - 1)) CHR '' '' @ color_keyword E k @ rest)"
    using h by (simp add: format_test_def test_line_def Let_def py_repeat_indent) blast
  have result: "\<exists>rest. format_result E mr =
            replicate (2 * nat (n - 1)) CHR '' '' @ color_result E (result_type mr) @ rest"
    using h by (simp add: format_result_def Let_def py_repeat_indent)
  have two: "py_repeat '' '' 2 = replicate 2 CHR '' ''"
    by (simp add: py_repeat_def numeral_2_eq_2)
  have "format_attribute E st ma = attributes_header E ma @ attribute_pair E ma"
    using h by (simp add: format_attribute_parts)
  also have "attributes_header E ma =
      replicate (2 * nat (py_count (test_id ma) CHR ''/'' - 1) + 2) CHR '' ''
        @ color_secondary_keyword E ''Attributes'' @ [NL]"
    by (simp only: attributes_header_def py_repeat_indent two replicate_add append_assoc)
  finally have attribute: "\<exists>rest. format_attribute E st ma =
            replicate (2 * nat (n - 1) + 2) CHR '' ''
              @ color_secondary_keyword E ''Attributes'' @ rest"
    using h by (metis append_assoc)
  have "1 \<le> n \<longrightarrow> 2 * nat n = 2 * nat (n - 1) + 2"
    by arith
  with input test result attribute
  show "(\<exists>rest. format_input E mi kw =
          replicate (2 * nat n) CHR '' ''
            @ color E (raised_hand @ '' '' @ message mi) ''yellow'' [''bold''] @ rest)
       \<and> (\<exists>k rest. snd (format_test E st mt kw) =
            Inr (replicate (2 * nat (n - 1)) CHR '' '' @ color_keyword E k @ rest))
       \<and> (\<exists>rest. format_result E mr =
            replicate (2 * nat (n - 1)) CHR '' '' @ color_result E (result_type mr) @ rest)
       \<and> (\<exists>rest. format_attribute E st ma =
            replicate (2 * nat (n - 1) + 2) CHR '' ''
              @ color_secondary_keyword E ''Attributes'' @ rest)
       \<and> (1 \<le> n \<longrightarrow> 2 * nat n = 2 * nat (n - 1) + 2)"
    by blast
qed

text \<open>The theorem at the messages of the test \<open>/A\<close>.\<close>

theorem indentation_by_kind_witness:
  "test_id input_A = ''/A'' \<and> test_id feature_A = ''/A'' \<and> test_id result_A = ''/A''
   \<and> test_id attribute_1 = ''/A'' \<and> py_count ''/A'' CHR ''/'' = 1
   \<and> get_type feature_A = Some Suite
   \<and> last_message (fst (transform_step sample_externals initial_state (Some feature_A)))
        = Some feature_A
   \<and> message_keyword feature_A \<noteq> ''ATTRIBUTE''
   \<and> format_input sample_externals input_A []
        = ''  '' @ raised_hand @ '' continue?'' @ cursor_up sample_externals @ [NL]
   \<and> snd (format_test sample_externals
          (fst (transform_step sample_externals initial_state (Some feature_A))) feature_A [])
        = Inr (''Feature A'' @ [NL])
   \<and> format_result sample_externals result_A = ''OK'' @ [NL]
   \<and> format_attribute sample_externals
          (fst (transform_step sample_externals initial_state (Some feature_A))) attribute_1
        = ''  Attributes'' @ [NL] @ ''    owner'' @ [NL] @ ''      qa'' @ [NL]"
proof -
  define st where "st = fst (transform_step sample_externals initial_state (Some feature_A))"
  have h: "test_id input_A = ''/A'' \<and> test_id feature_A = ''/A'' \<and> test_id result_A = ''/A''
      \<and> test_id attribute_1 = ''/A'' \<and> 1 = py_count ''/A'' CHR ''/''
      \<and> get_type feature_A = Some Suite
      \<and> last_message st = Some feature_A \<and> message_keyword feature_A \<noteq> ''ATTRIBUTE''"
    unfolding st_def by code_simp
  have e: "format_input sample_externals input_A []
        = ''  '' @ raised_hand @ '' continue?'' @ cursor_up sample_externals @ [NL]
      \<and> snd (format_test sample_externals st feature_A []) = Inr (''Feature A'' @ [NL])
      \<and> format_result sample_externals result_A = ''OK'' @ [NL]
      \<and> format_attribute sample_externals st attribute_1
        = ''  Attributes'' @ [NL] @ ''    owner'' @ [NL] @ ''      qa'' @ [NL]"
    unfolding st_def by code_simp
  from indentation_by_kind [where mi = input_A and mt = feature_A and mr = result_A
      and ma = attribute_1 and tid = "''/A''" and n = 1 and ty = Suite and st = st
      and lm = feature_A and E = sample_externals and kw = "[]"] h e
  show ?thesis unfolding st_def by simp
qed

text \<open>
  The claim as stated fails for ATTRIBUTE blocks: for the id \<open>/A\<close>, with one separator,
  the header is indented by two spaces and the name and the value by four and six, not
  by none.
\<close>

theorem attribute_lines_deeper:
  "py_count (test_id attribute_1) CHR ''/'' - 1 = 0
   \<and> format_attribute sample_externals
        (fst (transform_step sample_externals initial_state (Some feature_A))) attribute_1
      = ''  Attributes'' @ [NL] @ ''    owner'' @ [NL] @ ''      qa'' @ [NL]"
  by code_simp

section \<open>The specification report\<close>

text \<open>
  \<open>testflows/_core/cli/arg/handlers/report/specification.py\<close> is not valid Python as
  it stands. On line 137, inside \<open>Formatter.format_tests\<close>, the literal that starts
  with \<open>f"<div markdown=\<close> is closed by the quote that follows \<open>markdown=\<close>, and the
  digit \<open>1\<close> comes next; lines 129 and 130 write the same markup inside single quotes.
  The module cannot be compiled, so \<open>Formatter.format_tests\<close>, \<open>anchor\<close> within it and
  the numbering of sections never run, for any input: the file defines no behaviour of
  the specification report that could be embedded here. C8 and C9 describe that
  report; the code as given does not produce it.
\<close>

end
